theory Spec2Isabelle
  imports Main "HOL-Library.Sublist"
begin

section \<open>JSON documents and the Python operations the scripts apply to them\<close>

text \<open>
  A value read by \<^verbatim>\<open>json.load\<close>. A Python \<^verbatim>\<open>dict\<close> keeps its insertion order and has
  unique keys: it is an association list, whose keys are distinct in every value that
  \<^verbatim>\<open>json.load\<close> returns. An integer is an unbounded \<^typ>\<open>int\<close>; a float is carried as the
  text that \<^verbatim>\<open>json.dumps\<close> writes for it (the scripts never compute with a number).
  A character of a string stands for one code point below 256.
\<close>

datatype json =
    JNull
  | JBool bool
  | JInt int
  | JFloat string
  | JStr string
  | JArr "json list"
  | JObj "(string \<times> json) list"

type_synonym dict = "(string \<times> json) list"

datatype error = KeyError | TypeError | AttributeError

definition rbind :: "error + 'a \<Rightarrow> ('a \<Rightarrow> error + 'b) \<Rightarrow> error + 'b" where
  "rbind m f = (case m of Inl e \<Rightarrow> Inl e | Inr x \<Rightarrow> f x)"

definition dict_keys :: "dict \<Rightarrow> string list" where
  "dict_keys d = map fst d"

text \<open>\<^verbatim>\<open>d.get(key, default)\<close> on a dict.\<close>

definition dict_get :: "dict \<Rightarrow> string \<Rightarrow> json \<Rightarrow> json" where
  "dict_get d key dflt = (case map_of d key of None \<Rightarrow> dflt | Some v \<Rightarrow> v)"

section \<open>reorganize\_framework.py\<close>

text \<open>
  \<^verbatim>\<open>reorganize_framework\<close>: the dict literal of the source, entry by entry. The document
  root \<open>original\<close> is a dict; the file written by \<^verbatim>\<open>json.dump\<close> and read back by
  \<^verbatim>\<open>json.load\<close> in the checker is the returned value.
\<close>

definition reorganize_framework :: "dict \<Rightarrow> dict" where
  "reorganize_framework original =
   [(''meta'', dict_get original ''meta'' (JObj [])),
    (''core_framework'', JObj
      [(''description'', JStr ''Essential framework components - always visible''),
       (''reveal_on'', JStr ''immediate''),
       (''complexity'', JStr ''medium''),
       (''core'', dict_get original ''core'' (JObj [])),
       (''universal_standards'', dict_get original ''universal_standards'' (JObj [])),
       (''behavioral_rules'', dict_get original ''behavioral_rules'' (JObj [])),
       (''principles'', dict_get original ''principles'' (JArr []))]),
    (''development_domains'', JObj
      [(''description'', JStr ''Domain-specific development standards and tools''),
       (''reveal_on'', JStr ''domain_specific_project_detected''),
       (''complexity'', JStr ''high''),
       (''web_development'', dict_get original ''web_development'' (JObj [])),
       (''design_system'', dict_get original ''design_system'' (JObj [])),
       (''music_audio_processing'', dict_get original ''music_audio_processing'' (JObj [])),
       (''file_processing'', dict_get original ''file_processing'' (JObj []))]),
    (''ai_and_automation'', JObj
      [(''description'', JStr ''AI enhancement, automation, and intelligent capabilities''),
       (''reveal_on'', JStr ''ai_features_needed''),
       (''complexity'', JStr ''high''),
       (''ai_enhancement'', dict_get original ''ai_enhancement'' (JObj [])),
       (''specialized_capabilities'', dict_get original ''specialized_capabilities'' (JObj [])),
       (''autonomous_completion'', dict_get original ''autonomous_completion'' (JObj []))]),
    (''business_and_communication'', JObj
      [(''description'', JStr ''Business strategy and communication standards''),
       (''reveal_on'', JStr ''business_context_needed''),
       (''complexity'', JStr ''medium''),
       (''business_strategy'', dict_get original ''business_strategy'' (JObj [])),
       (''communication'', dict_get original ''communication'' (JObj []))]),
    (''quality_and_standards'', JObj
      [(''description'', JStr ''Quality assurance, formatting, and validation standards''),
       (''reveal_on'', JStr ''quality_validation_needed''),
       (''complexity'', JStr ''medium''),
       (''quality'', dict_get original ''quality'' (JObj [])),
       (''formatting'', dict_get original ''formatting'' (JObj [])),
       (''documentation'', dict_get original ''documentation'' (JObj [])),
       (''validation_enhancement'', dict_get original ''validation_enhancement'' (JObj [])),
       (''_validation'', dict_get original ''_validation'' (JObj []))]),
    (''operations_and_workflow'', JObj
      [(''description'', JStr ''Workflow management, monitoring, and operational concerns''),
       (''reveal_on'', JStr ''operational_management_needed''),
       (''complexity'', JStr ''medium''),
       (''workflow'', dict_get original ''workflow'' (JObj [])),
       (''monitoring'', dict_get original ''monitoring'' (JObj [])),
       (''execution'', dict_get original ''execution'' (JObj [])),
       (''system_configurations'', dict_get original ''system_configurations'' (JObj [])),
       (''infrastructure_preservation'',
          dict_get original ''infrastructure_preservation'' (JObj []))]),
    (''framework_management'', JObj
      [(''description'', JStr ''Framework self-management, optimization, and maintenance''),
       (''reveal_on'', JStr ''framework_maintenance_needed''),
       (''complexity'', JStr ''high''),
       (''self_optimization'', dict_get original ''self_optimization'' (JObj [])),
       (''cross_reference_integrity_system'',
          dict_get original ''cross_reference_integrity_system'' (JObj [])),
       (''change_management'', dict_get original ''change_management'' (JObj [])),
       (''framework_self_optimization'',
          dict_get original ''framework_self_optimization'' (JObj [])),
       (''eof_metadata'', dict_get original ''eof_metadata'' (JObj []))])]"

text \<open>
  \<^verbatim>\<open>validate_reorganization\<close>. Its local variables are functions of the two documents;
  the loop over \<^verbatim>\<open>reorganized.items()\<close> is a fold whose state is the set built so far.
  The printed report is not part of the model; the returned flag is.
\<close>

definition original_sections :: "dict \<Rightarrow> string set" where
  "original_sections original = set (dict_keys original) - {''meta''}"

definition descriptive_fields :: "string list" where
  "descriptive_fields = [''description'', ''reveal_on'', ''complexity'']"

definition add_group_sections :: "string \<times> json \<Rightarrow> string set \<Rightarrow> string set" where
  "add_group_sections item acc =
     (case item of (group_name, group_data) \<Rightarrow>
        if group_name = ''meta'' then acc
        else (case group_data of
                JObj g \<Rightarrow>
                  fold (\<lambda>section_name s.
                          if section_name \<notin> set descriptive_fields
                          then insert section_name s else s)
                       (dict_keys g) acc
              | _ \<Rightarrow> acc))"

definition reorganized_sections :: "dict \<Rightarrow> string set" where
  "reorganized_sections reorganized = fold add_group_sections reorganized {}"

definition missing_sections :: "dict \<Rightarrow> dict \<Rightarrow> string set" where
  "missing_sections original reorganized =
     original_sections original - reorganized_sections reorganized"

definition extra_sections :: "dict \<Rightarrow> dict \<Rightarrow> string set" where
  "extra_sections original reorganized =
     reorganized_sections reorganized - original_sections original"

definition validate_reorganization :: "dict \<Rightarrow> dict \<Rightarrow> bool" where
  "validate_reorganization original reorganized =
     (if missing_sections original reorganized \<noteq> {} then False
      else if extra_sections original reorganized \<noteq> {} then False
      else True)"

text \<open>The member keys that a group of a target document contributes to the checker.\<close>

definition group_member_keys :: "json \<Rightarrow> string set" where
  "group_member_keys group_data =
     (case group_data of
        JObj g \<Rightarrow> set (dict_keys g) - set descriptive_fields
      | _ \<Rightarrow> {})"

text \<open>
  The grouping of \<^verbatim>\<open>reorganize_framework\<close> as a table: each group with its member
  keys and the default that \<^verbatim>\<open>original.get\<close> gives for an absent member.
\<close>

definition schema_groups :: "(string \<times> dict) list" where
  "schema_groups =
   [(''core_framework'',
       [(''core'', JObj []), (''universal_standards'', JObj []),
        (''behavioral_rules'', JObj []), (''principles'', JArr [])]),
    (''development_domains'',
       [(''web_development'', JObj []), (''design_system'', JObj []),
        (''music_audio_processing'', JObj []), (''file_processing'', JObj [])]),
    (''ai_and_automation'',
       [(''ai_enhancement'', JObj []), (''specialized_capabilities'', JObj []),
        (''autonomous_completion'', JObj [])]),
    (''business_and_communication'',
       [(''business_strategy'', JObj []), (''communication'', JObj [])]),
    (''quality_and_standards'',
       [(''quality'', JObj []), (''formatting'', JObj []), (''documentation'', JObj []),
        (''validation_enhancement'', JObj []), (''_validation'', JObj [])]),
    (''operations_and_workflow'',
       [(''workflow'', JObj []), (''monitoring'', JObj []), (''execution'', JObj []),
        (''system_configurations'', JObj []), (''infrastructure_preservation'', JObj [])]),
    (''framework_management'',
       [(''self_optimization'', JObj []), (''cross_reference_integrity_system'', JObj []),
        (''change_management'', JObj []), (''framework_self_optimization'', JObj []),
        (''eof_metadata'', JObj [])])]"

definition schema_members :: "(string \<times> string \<times> json) list" where
  "schema_members =
     concat (map (\<lambda>(g, ms). map (\<lambda>(k, dflt). (k, g, dflt)) ms) schema_groups)"

definition schema_keys :: "string list" where
  "schema_keys = map fst schema_members"

definition group_member :: "dict \<Rightarrow> string \<Rightarrow> string \<Rightarrow> json option" where
  "group_member target g key =
     (case map_of target g of
        Some (JObj grp) \<Rightarrow> map_of grp key
      | _ \<Rightarrow> None)"

definition recovered_list :: "dict \<Rightarrow> string list" where
  "recovered_list target =
     concat (map (\<lambda>(g, v).
        if g = ''meta'' then []
        else (case v of
                JObj grp \<Rightarrow> filter (\<lambda>k. k \<notin> set descriptive_fields) (dict_keys grp)
              | _ \<Rightarrow> [])) target)"

text \<open>A document that has \<^verbatim>\<open>"meta"\<close> and every member key of the grouping table.\<close>

definition full_document :: dict where
  "full_document =
     (''meta'', JObj [(''version'', JStr ''35.2.0'')])
     # map (\<lambda>(k, g, dflt). (k, dflt)) schema_members"

section \<open>restructure\_framework.py\<close>

text \<open>Truth value of a JSON value, as \<^verbatim>\<open>not x\<close> and \<^verbatim>\<open>if x\<close> test it.\<close>

fun py_truthy :: "json \<Rightarrow> bool" where
  "py_truthy JNull = False"
| "py_truthy (JBool b) = b"
| "py_truthy (JInt i) = (i \<noteq> 0)"
| "py_truthy (JFloat s) = (s \<noteq> ''0.0'' \<and> s \<noteq> ''-0.0'')"
| "py_truthy (JStr s) = (s \<noteq> [])"
| "py_truthy (JArr xs) = (xs \<noteq> [])"
| "py_truthy (JObj d) = (d \<noteq> [])"

text \<open>\<^verbatim>\<open>sub in s\<close> on two strings.\<close>

fun str_contains :: "string \<Rightarrow> string \<Rightarrow> bool" where
  "str_contains [] sub = (sub = [])"
| "str_contains (c # cs) sub = (prefix sub (c # cs) \<or> str_contains cs sub)"

text \<open>
  \<^verbatim>\<open>key in x\<close> for a string \<open>key\<close>: key membership on a dict, element membership on a
  list, substring test on a string, and a TypeError on every other value.
\<close>

fun py_in :: "string \<Rightarrow> json \<Rightarrow> error + bool" where
  "py_in key (JObj d) = Inr (key \<in> set (dict_keys d))"
| "py_in key (JArr xs) = Inr (JStr key \<in> set xs)"
| "py_in key (JStr s) = Inr (str_contains s key)"
| "py_in key _ = Inl TypeError"

text \<open>\<^verbatim>\<open>d[key]\<close> on the document root.\<close>

definition dict_getitem :: "dict \<Rightarrow> string \<Rightarrow> error + json" where
  "dict_getitem d key = (case map_of d key of None \<Rightarrow> Inl KeyError | Some v \<Rightarrow> Inr v)"

text \<open>\<^verbatim>\<open>x[key]\<close> for a string \<open>key\<close>: only a dict can be indexed by a string.\<close>

fun py_getitem :: "json \<Rightarrow> string \<Rightarrow> error + json" where
  "py_getitem (JObj d) key = dict_getitem d key"
| "py_getitem _ key = Inl TypeError"

text \<open>\<^verbatim>\<open>x.get(key, default)\<close> and \<^verbatim>\<open>x.items()\<close>: methods of a dict only.\<close>

fun py_get :: "json \<Rightarrow> string \<Rightarrow> json \<Rightarrow> error + json" where
  "py_get (JObj d) key dflt = Inr (dict_get d key dflt)"
| "py_get _ key dflt = Inl AttributeError"

fun py_items :: "json \<Rightarrow> error + dict" where
  "py_items (JObj d) = Inr d"
| "py_items _ = Inl AttributeError"

text \<open>\<^verbatim>\<open>len(x)\<close>, \<^verbatim>\<open>x[:n]\<close> and \<^verbatim>\<open>x[n:]\<close>. Slicing a dict raises (a TypeError up to
  Python 3.11, a KeyError from 3.12 on; the model takes the former).\<close>

fun py_len :: "json \<Rightarrow> error + nat" where
  "py_len (JStr s) = Inr (length s)"
| "py_len (JArr xs) = Inr (length xs)"
| "py_len (JObj d) = Inr (length d)"
| "py_len _ = Inl TypeError"

fun py_slice_to :: "json \<Rightarrow> nat \<Rightarrow> error + json" where
  "py_slice_to (JArr xs) n = Inr (JArr (take n xs))"
| "py_slice_to (JStr s) n = Inr (JStr (take n s))"
| "py_slice_to _ n = Inl TypeError"

fun py_slice_from :: "json \<Rightarrow> nat \<Rightarrow> error + json" where
  "py_slice_from (JArr xs) n = Inr (JArr (drop n xs))"
| "py_slice_from (JStr s) n = Inr (JStr (drop n s))"
| "py_slice_from _ n = Inl TypeError"

text \<open>
  \<^verbatim>\<open>{key: x[key] for key in keys if key in x}\<close>: for each key in turn the test, then
  the lookup. The allow-lists of the source have no repeated key, so no entry of the
  comprehension overwrites an earlier one.
\<close>

fun pick_keys :: "json \<Rightarrow> string list \<Rightarrow> error + dict" where
  "pick_keys x [] = Inr []"
| "pick_keys x (key # keys) =
     rbind (py_in key x) (\<lambda>present.
       if present
       then rbind (py_getitem x key) (\<lambda>v.
              rbind (pick_keys x keys) (\<lambda>rest. Inr ((key, v) # rest)))
       else pick_keys x keys)"

text \<open>\<^verbatim>\<open>{key: value for key, value in x.items() if key not in keys}\<close>.\<close>

definition drop_keys :: "json \<Rightarrow> string set \<Rightarrow> error + dict" where
  "drop_keys x keys =
     rbind (py_items x) (\<lambda>items. Inr (filter (\<lambda>(key, value). key \<notin> keys) items))"

definition essential_rule_keys :: "string list" where
  "essential_rule_keys =
     [''approval_required'', ''full_internalization'', ''never_truncate_policy'',
      ''surgical_precision'']"

text \<open>The test \<^verbatim>\<open>not behavioral_rules or "core_rules" not in behavioral_rules\<close>;
  \<^verbatim>\<open>or\<close> does not evaluate its right side when the left one holds.\<close>

definition no_core_rules :: "json \<Rightarrow> error + bool" where
  "no_core_rules behavioral_rules =
     (if \<not> py_truthy behavioral_rules then Inr True
      else rbind (py_in ''core_rules'' behavioral_rules) (\<lambda>present. Inr (\<not> present)))"

definition extract_essential_behavioral_rules :: "json \<Rightarrow> error + json" where
  "extract_essential_behavioral_rules behavioral_rules =
     rbind (no_core_rules behavioral_rules) (\<lambda>none.
       if none then Inr (JObj [])
       else rbind (py_getitem behavioral_rules ''core_rules'') (\<lambda>core_rules.
              rbind (pick_keys core_rules essential_rule_keys) (\<lambda>d. Inr (JObj d))))"

definition extract_advanced_behavioral_rules :: "json \<Rightarrow> error + json" where
  "extract_advanced_behavioral_rules behavioral_rules =
     rbind (no_core_rules behavioral_rules) (\<lambda>none.
       if none then Inr (JObj [])
       else rbind (py_getitem behavioral_rules ''core_rules'') (\<lambda>core_rules.
              rbind (drop_keys core_rules
                       {''approval_required'', ''full_internalization'',
                        ''never_truncate_policy'', ''surgical_precision''})
                (\<lambda>d. Inr (JObj d))))"

definition extract_essential_principles :: "json \<Rightarrow> error + json" where
  "extract_essential_principles principles =
     (if py_truthy principles then py_slice_to principles 7 else Inr (JArr []))"

definition extract_advanced_principles :: "json \<Rightarrow> error + json" where
  "extract_advanced_principles principles =
     rbind (py_len principles) (\<lambda>n.
       if n > 7 then py_slice_from principles 7 else Inr (JArr []))"

definition essential_web_keys :: "string list" where
  "essential_web_keys =
     [''responsive_design'', ''accessibility'', ''performance'', ''semantic_html'',
      ''css_architecture'']"

definition extract_essential_web_patterns :: "json \<Rightarrow> error + json" where
  "extract_essential_web_patterns web_dev =
     (if \<not> py_truthy web_dev then Inr (JObj [])
      else rbind (pick_keys web_dev essential_web_keys) (\<lambda>d. Inr (JObj d)))"

definition extract_advanced_web_features :: "json \<Rightarrow> error + json" where
  "extract_advanced_web_features web_dev =
     (if \<not> py_truthy web_dev then Inr (JObj [])
      else rbind (drop_keys web_dev
                   {''responsive_design'', ''accessibility'', ''performance'',
                    ''semantic_html'', ''css_architecture''})
             (\<lambda>d. Inr (JObj d)))"

definition core_design_keys :: "string list" where
  "core_design_keys = [''typography'', ''color_system'', ''spacing'', ''component_library'']"

definition extract_core_design_components :: "json \<Rightarrow> error + json" where
  "extract_core_design_components design_system =
     (if \<not> py_truthy design_system then Inr (JObj [])
      else rbind (pick_keys design_system core_design_keys) (\<lambda>d. Inr (JObj d)))"

definition extract_advanced_design_components :: "json \<Rightarrow> error + json" where
  "extract_advanced_design_components design_system =
     (if \<not> py_truthy design_system then Inr (JObj [])
      else rbind (drop_keys design_system
                   {''typography'', ''color_system'', ''spacing'', ''component_library''})
             (\<lambda>d. Inr (JObj d)))"

definition essential_execution_keys :: "string list" where
  "essential_execution_keys = [''validation_gates'', ''error_handling'', ''rollback_mechanisms'']"

definition extract_essential_execution :: "json \<Rightarrow> error + json" where
  "extract_essential_execution execution =
     (if \<not> py_truthy execution then Inr (JObj [])
      else rbind (pick_keys execution essential_execution_keys) (\<lambda>d. Inr (JObj d)))"

definition extract_advanced_execution :: "json \<Rightarrow> error + json" where
  "extract_advanced_execution execution =
     (if \<not> py_truthy execution then Inr (JObj [])
      else rbind (drop_keys execution
                   {''validation_gates'', ''error_handling'', ''rollback_mechanisms''})
             (\<lambda>d. Inr (JObj d)))"

text \<open>\<^verbatim>\<open>original["meta"].get(key, default)\<close>.\<close>

definition meta_get :: "dict \<Rightarrow> string \<Rightarrow> json \<Rightarrow> error + json" where
  "meta_get original key dflt =
     rbind (dict_getitem original ''meta'') (\<lambda>meta. py_get meta key dflt)"

text \<open>
  \<^verbatim>\<open>restructure_framework\<close>. Python evaluates the entries of a dict display from first
  to last, so the operations that can raise run in the order of the source text, and the
  first one that raises ends the call; the value is the dict literal of the source.
\<close>

definition restructure_framework :: "dict \<Rightarrow> error + dict" where
  "restructure_framework original =
   rbind (meta_get original ''consolidation_summary'' (JObj [])) (\<lambda>consolidation_summary.
   rbind (meta_get original ''compliance'' (JArr [])) (\<lambda>compliance.
   rbind (meta_get original ''role'' (JStr [])) (\<lambda>role.
   rbind (meta_get original ''execution_disclaimer'' (JStr [])) (\<lambda>execution_disclaimer.
   rbind (meta_get original ''github_integration'' (JObj [])) (\<lambda>github_integration.
   rbind (extract_essential_behavioral_rules
            (dict_get original ''behavioral_rules'' (JObj []))) (\<lambda>essential_rules.
   rbind (extract_advanced_behavioral_rules
            (dict_get original ''behavioral_rules'' (JObj []))) (\<lambda>advanced_rules.
   rbind (extract_essential_principles
            (dict_get original ''principles'' (JArr []))) (\<lambda>essential_principles.
   rbind (extract_advanced_principles
            (dict_get original ''principles'' (JArr []))) (\<lambda>advanced_principles.
   rbind (extract_essential_web_patterns
            (dict_get original ''web_development'' (JObj []))) (\<lambda>essential_patterns.
   rbind (extract_advanced_web_features
            (dict_get original ''web_development'' (JObj []))) (\<lambda>advanced_features.
   rbind (extract_core_design_components
            (dict_get original ''design_system'' (JObj []))) (\<lambda>core_components.
   rbind (extract_advanced_design_components
            (dict_get original ''design_system'' (JObj []))) (\<lambda>advanced_design.
   rbind (extract_essential_execution
            (dict_get original ''execution'' (JObj []))) (\<lambda>essential_execution.
   rbind (extract_advanced_execution
            (dict_get original ''execution'' (JObj []))) (\<lambda>advanced_execution.
   Inr
   [(''meta'', JObj
      [(''essential_info'', JObj
         [(''version'', JStr ''38.0.0''),
          (''timestamp'', JStr ''2025-01-27T15:30:00Z''),
          (''author'', JStr ''anon987654321''),
          (''description'',
             JStr ''Self-optimized prompts.json v38.0.0 with cognitive load management''),
          (''self_validated'', JBool True),
          (''auto_applies_to'', JStr ''every_file_and_entire_projects'')]),
       (''framework_details'', JObj
         [(''reveal_on'', JStr ''detailed_inspection_needed''),
          (''complexity'', JStr ''medium''),
          (''consolidation_summary'', consolidation_summary),
          (''compliance'', compliance)]),
       (''integration_config'', JObj
         [(''reveal_on'', JStr ''deployment_or_integration''),
          (''complexity'', JStr ''low''),
          (''role'', role),
          (''execution_disclaimer'', execution_disclaimer),
          (''github_integration'', github_integration)]),
       (''self_optimization'', JObj
         [(''cognitive_load_management'', JBool True),
          (''progressive_disclosure_enabled'', JBool True),
          (''framework_health_checks'', JBool True),
          (''self_enforcement_active'', JBool True),
          (''last_self_validation'', JStr ''2025-01-27T15:30:00Z'')])]),
    (''core_framework'', JObj
      [(''essential_first'', JBool True),
       (''description'',
          JStr ''Core behavioral rules and restrictions - essential for all operations''),
       (''file_policy'', dict_get original ''file_policy'' (JObj [])),
       (''core_restrictions'', dict_get original ''core_restrictions'' (JObj [])),
       (''behavioral_rules'', JObj
         [(''essential_rules'', JObj
            [(''reveal_on'', JStr ''immediate''),
             (''rules'', essential_rules)]),
          (''advanced_rules'', JObj
            [(''reveal_on'', JStr ''complex_scenarios''),
             (''complexity'', JStr ''high''),
             (''rules'', advanced_rules)])])]),
    (''standards_and_principles'', JObj
      [(''description'', JStr
          ''Universal standards and core principles - progressive disclosure by complexity''),
       (''essential_principles'', JObj
         [(''reveal_on'', JStr ''immediate''),
          (''complexity'', JStr ''low''),
          (''principles'', essential_principles)]),
       (''advanced_principles'', JObj
         [(''reveal_on'', JStr ''advanced_usage''),
          (''complexity'', JStr ''medium''),
          (''principles'', advanced_principles)]),
       (''universal_standards'', dict_get original ''universal_standards'' (JObj [])),
       (''formatting_rules'', dict_get original ''formatting_rules'' (JObj [])),
       (''error_handling'', dict_get original ''error_handling'' (JObj []))]),
    (''development_domains'', JObj
      [(''description'', JStr
          ''Domain-specific development standards - revealed based on project type''),
       (''web_development'', JObj
         [(''essential_patterns'', JObj
            [(''reveal_on'', JStr ''web_project_detected''),
             (''complexity'', JStr ''medium''),
             (''patterns'', essential_patterns)]),
          (''advanced_features'', JObj
            [(''reveal_on'', JStr ''complex_web_features_needed''),
             (''complexity'', JStr ''high''),
             (''features'', advanced_features)])]),
       (''design_system'', JObj
         [(''core_components'', JObj
            [(''reveal_on'', JStr ''ui_design_needed''),
             (''complexity'', JStr ''medium''),
             (''components'', core_components)]),
          (''advanced_design'', JObj
            [(''reveal_on'', JStr ''sophisticated_design_needed''),
             (''complexity'', JStr ''high''),
             (''components'', advanced_design)])])]),
    (''specialized_systems'', JObj
      [(''description'', JStr
          ''Specialized systems and advanced features - revealed on demand''),
       (''ai3_assistant_system'', JObj
         [(''reveal_on'', JStr ''ai_assistance_needed''),
          (''complexity'', JStr ''high''),
          (''system'', dict_get original ''ai3_assistant_system'' (JObj []))]),
       (''rails_8_ecosystem'', JObj
         [(''reveal_on'', JStr ''rails_project_detected''),
          (''complexity'', JStr ''medium''),
          (''ecosystem'', dict_get original ''rails_8_ecosystem'' (JObj []))]),
       (''audio_visualizer_system'', JObj
         [(''reveal_on'', JStr ''audio_visualization_needed''),
          (''complexity'', JStr ''high''),
          (''system'', dict_get original ''audio_visualizer_system'' (JObj []))]),
       (''business_strategy'', JObj
         [(''reveal_on'', JStr ''business_planning_needed''),
          (''complexity'', JStr ''medium''),
          (''strategy'', dict_get original ''business_strategy'' (JObj []))])]),
    (''operational_framework'', JObj
      [(''description'', JStr ''Execution, validation, and operational concerns''),
       (''execution'', JObj
         [(''essential_execution'', JObj
            [(''reveal_on'', JStr ''immediate''),
             (''complexity'', JStr ''low''),
             (''patterns'', essential_execution)]),
          (''advanced_execution'', JObj
            [(''reveal_on'', JStr ''complex_operations_needed''),
             (''complexity'', JStr ''high''),
             (''patterns'', advanced_execution)])]),
       (''validation_framework'', dict_get original ''validation_framework'' (JObj [])),
       (''change_management'', dict_get original ''change_management'' (JObj [])),
       (''communication'', dict_get original ''communication'' (JObj [])),
       (''communication_standards'',
          dict_get original ''communication_standards'' (JObj []))]),
    (''framework_health'', JObj
      [(''description'', JStr ''Framework self-monitoring and health checks''),
       (''health_checks'', JObj
         [(''cognitive_load_validation'', JBool True),
          (''progressive_disclosure_validation'', JBool True),
          (''dry_compliance_check'', JBool True),
          (''self_enforcement_check'', JBool True)]),
       (''self_enforcement'', JObj
         [(''framework_applies_to_itself'', JBool True),
          (''recursive_validation'', JBool True),
          (''continuous_improvement'', JBool True)])])])))))))))))))))"

text \<open>The entries of \<open>M\<close> at the keys of a list that \<open>M\<close> has, in the order of the list.\<close>

definition pick :: "dict \<Rightarrow> string list \<Rightarrow> dict" where
  "pick M keys = List.map_filter (\<lambda>k. map_option (Pair k) (map_of M k)) keys"

text \<open>
  What it means for two dicts \<open>E\<close> and \<open>A\<close> to split a dict \<open>M\<close> along an allow-list:
  \<open>E\<close> is \<open>M\<close> restricted to the allow-list, \<open>A\<close> is \<open>M\<close> restricted to the other
  keys, no key is in both, and the entries of the two together are the entries of \<open>M\<close>.
\<close>

definition split_partition :: "string list \<Rightarrow> dict \<Rightarrow> dict \<Rightarrow> dict \<Rightarrow> bool" where
  "split_partition allow M E A \<longleftrightarrow>
     map_of E = map_of M |` set allow
     \<and> map_of A = map_of M |` (- set allow)
     \<and> set (dict_keys E) = set allow \<inter> set (dict_keys M)
     \<and> set (dict_keys A) = set (dict_keys M) - set allow
     \<and> set (dict_keys E) \<inter> set (dict_keys A) = {}
     \<and> map_of E ++ map_of A = map_of M
     \<and> (distinct (dict_keys M) \<longrightarrow>
          distinct (dict_keys E) \<and> distinct (dict_keys A) \<and> set E \<union> set A = set M)"


section \<open>Serialized text\<close>

text \<open>Decimal text of a number, as \<^verbatim>\<open>str\<close> and \<^verbatim>\<open>json.dumps\<close> write it.\<close>

definition digit_char :: "nat \<Rightarrow> char" where
  "digit_char d = char_of (48 + d)"

function show_nat :: "nat \<Rightarrow> string" where
  "show_nat n = (if n < 10 then [digit_char n] else show_nat (n div 10) @ [digit_char (n mod 10)])"
  by pat_completeness auto
termination
  by (relation "measure (\<lambda>n. n)") auto

definition show_int :: "int \<Rightarrow> string" where
  "show_int i = (if i < 0 then CHR ''-'' # show_nat (nat (- i)) else show_nat (nat i))"

text \<open>
  \<^verbatim>\<open>json.dumps(x)\<close> with its defaults: separators \<^verbatim>\<open>", "\<close> and \<^verbatim>\<open>": "\<close>, no
  indentation, \<^verbatim>\<open>ensure_ascii\<close> on. Inside a string the quote and the backslash are
  escaped, the control characters have their short escapes or a \<^verbatim>\<open>\u00xx\<close>, and so
  has every character outside the printable ASCII range.
\<close>

definition hex_digit :: "nat \<Rightarrow> char" where
  "hex_digit d = (if d < 10 then char_of (48 + d) else char_of (87 + d))"

definition escape_char :: "char \<Rightarrow> string" where
  "escape_char c =
     (if c = CHR 0x22 then [CHR 0x5C, CHR 0x22]
      else if c = CHR 0x5C then [CHR 0x5C, CHR 0x5C]
      else if c = CHR 0x0A then [CHR 0x5C, CHR ''n'']
      else if c = CHR 0x0D then [CHR 0x5C, CHR ''r'']
      else if c = CHR 0x09 then [CHR 0x5C, CHR ''t'']
      else if c = CHR 0x08 then [CHR 0x5C, CHR ''b'']
      else if c = CHR 0x0C then [CHR 0x5C, CHR ''f'']
      else if (of_char c :: nat) < 32 \<or> (of_char c :: nat) > 126
      then [CHR 0x5C, CHR ''u'', CHR ''0'', CHR ''0'',
            hex_digit (of_char c div 16), hex_digit (of_char c mod 16)]
      else [c])"

definition encode_string :: "string \<Rightarrow> string" where
  "encode_string s = CHR 0x22 # concat (map escape_char s) @ [CHR 0x22]"

fun join_comma :: "string list \<Rightarrow> string" where
  "join_comma [] = []"
| "join_comma [x] = x"
| "join_comma (x # y # ys) = x @ '', '' @ join_comma (y # ys)"

primrec json_dumps :: "json \<Rightarrow> string" where
  "json_dumps JNull = ''null''"
| "json_dumps (JBool b) = (if b then ''true'' else ''false'')"
| "json_dumps (JInt i) = show_int i"
| "json_dumps (JFloat s) = s"
| "json_dumps (JStr s) = encode_string s"
| "json_dumps (JArr xs) = ''['' @ join_comma (map json_dumps xs) @ '']''"
| "json_dumps (JObj d) =
     ''{'' @ join_comma (map (\<lambda>(k, text). encode_string k @ '': '' @ text)
                            (map (map_prod id json_dumps) d)) @ ''}''"

text \<open>\<^verbatim>\<open>s.count(sub)\<close>: the number of occurrences of \<open>sub\<close> in \<open>s\<close> that do not overlap,
  found from left to right.\<close>

function str_count :: "string \<Rightarrow> string \<Rightarrow> nat" where
  "str_count s sub =
     (if sub = [] then length s + 1
      else if s = [] then 0
      else if prefix sub s then 1 + str_count (drop (length sub) s) sub
      else str_count (tl s) sub)"
  by pat_completeness auto
termination
  by (relation "measure (\<lambda>(s, sub). length s)") auto

section \<open>framework\_self\_validation.py\<close>

record violation =
  vio_type :: string
  vio_location :: string
  vio_count :: nat
  vio_limit :: nat
  vio_severity :: string

record cognitive_load_result =
  cl_compliant :: bool
  cl_violations :: "violation list"
  cl_suggestions :: "string list"

definition generate_cognitive_load_suggestions :: "violation list \<Rightarrow> string list" where
  "generate_cognitive_load_suggestions violations =
     map (\<lambda>v. if vio_location v = ''root''
              then ''Consider grouping related top-level sections under categorical containers''
              else ''Implement progressive disclosure for '' @ [CHR 0x27] @ vio_location v
                   @ [CHR 0x27] @ '' ('' @ show_nat (vio_count v) @ '' items)'')
         violations"

text \<open>The body of the loop over \<^verbatim>\<open>self.framework_data.items()\<close>.\<close>

definition check_subsection :: "string \<times> json \<Rightarrow> violation list \<Rightarrow> violation list" where
  "check_subsection item violations =
     (case item of (key, v) \<Rightarrow>
        (case v of
           JObj d \<Rightarrow>
             (let sub_count = length (dict_keys d)
              in if sub_count > 9
                 then violations @
                      [\<lparr>vio_type = ''cognitive_overload'', vio_location = key,
                        vio_count = sub_count, vio_limit = 9, vio_severity = ''medium''\<rparr>]
                 else violations)
         | JArr xs \<Rightarrow>
             if length xs > 9
             then violations @
                  [\<lparr>vio_type = ''cognitive_overload'', vio_location = key,
                    vio_count = length xs, vio_limit = 9, vio_severity = ''medium''\<rparr>]
             else violations
         | _ \<Rightarrow> violations))"

definition validate_cognitive_load :: "dict \<Rightarrow> cognitive_load_result" where
  "validate_cognitive_load framework_data =
     (let top_level_count = length (dict_keys framework_data);
          root_violations =
            (if top_level_count > 9
             then [\<lparr>vio_type = ''cognitive_overload'', vio_location = ''root'',
                    vio_count = top_level_count, vio_limit = 9, vio_severity = ''high''\<rparr>]
             else []);
          violations = fold check_subsection framework_data root_violations
      in \<lparr>cl_compliant = (length violations = 0),
          cl_violations = violations,
          cl_suggestions = generate_cognitive_load_suggestions violations\<rparr>)"

record disclosure_result =
  pd_compliant :: bool
  pd_reveal_on :: nat
  pd_essential_first :: nat
  pd_complexity_indicators :: nat
  pd_suggestions :: "string list"

definition validate_progressive_disclosure :: "dict \<Rightarrow> disclosure_result" where
  \<open>validate_progressive_disclosure framework_data =
     (let framework_str = json_dumps (JObj framework_data);
          reveal_on_count = str_count framework_str ''"reveal_on"'';
          essential_first_count = str_count framework_str ''"essential_first"'';
          complexity_indicators = str_count framework_str ''"complexity"'';
          compliant = (reveal_on_count > 0 \<or> essential_first_count > 0)
      in \<lparr>pd_compliant = compliant,
          pd_reveal_on = reveal_on_count,
          pd_essential_first = essential_first_count,
          pd_complexity_indicators = complexity_indicators,
          pd_suggestions =
            (if \<not> compliant
             then [''Add 'reveal_on' triggers for complex sections'',
                   ''Implement 'essential_first' information hierarchy'',
                   ''Add complexity indicators for cognitive load management'']
             else [])\<rparr>)\<close>

record enforcement_result =
  se_compliant :: bool
  se_indicators :: "(string \<times> bool) list"
  se_suggestions :: "string list"

text \<open>\<^verbatim>\<open>sum(indicators.values())\<close>: a true value counts 1, a false one 0.\<close>

definition sum_bools :: "bool list \<Rightarrow> nat" where
  "sum_bools bs = sum_list (map (\<lambda>b. if b then 1 else 0) bs)"

definition validate_self_enforcement :: "dict \<Rightarrow> enforcement_result" where
  \<open>validate_self_enforcement framework_data =
     (let framework_str = json_dumps (JObj framework_data);
          indicators =
            [(''self_validated'', str_contains framework_str ''"self_validated"''),
             (''health_checks'', str_contains framework_str ''health_check''),
             (''validation_framework'', str_contains framework_str ''"validation_framework"''),
             (''auto_applies'', str_contains framework_str ''"auto_applies"'')];
          compliant = (sum_bools (map snd indicators) \<ge> 2)
      in \<lparr>se_compliant = compliant,
          se_indicators = indicators,
          se_suggestions =
            (if \<not> compliant
             then [''Add framework health check mechanisms'',
                   ''Implement self-validation routines'',
                   ''Create automated enforcement rules'']
             else [])\<rparr>)\<close>

text \<open>How many of the given literal markers occur in a text.\<close>

definition indicators_present :: "string \<Rightarrow> string list \<Rightarrow> nat" where
  "indicators_present text markers = length (filter (str_contains text) markers)"

section \<open>Basic facts\<close>

lemma rbind_simps [simp]:
  "rbind (Inl e) f = Inl e"
  "rbind (Inr x) f = f x"
  by (simp_all add: rbind_def)

section \<open>The completeness checker\<close>

lemma fold_section_names:
  "fold (\<lambda>section_name s. if section_name \<notin> D then insert section_name s else s) ks acc
     = acc \<union> (set ks - D)"
  by (induction ks arbitrary: acc) auto

lemma add_group_sections_eq:
  "add_group_sections (g, v) acc
     = acc \<union> (if g = ''meta'' then {} else group_member_keys v)"
  by (cases v) (simp_all add: add_group_sections_def group_member_keys_def fold_section_names)

lemma fold_add_group_sections:
  "fold add_group_sections r acc
     = acc \<union> (\<Union>(g, v) \<in> set r. if g = ''meta'' then {} else group_member_keys v)"
proof (induction r arbitrary: acc)
  case Nil
  show ?case by simp
next
  case (Cons item r)
  obtain g v where item: "item = (g, v)" by (cases item)
  show ?case
    by (simp add: Cons.IH item add_group_sections_eq Un_assoc)
qed

lemma reorganized_sections_eq:
  "reorganized_sections r
     = (\<Union>(g, v) \<in> set r. if g = ''meta'' then {} else group_member_keys v)"
  by (simp add: reorganized_sections_def fold_add_group_sections)

lemma schema_keys_eval:
  "schema_keys = [''core'', ''universal_standards'', ''behavioral_rules'', ''principles'',
     ''web_development'', ''design_system'', ''music_audio_processing'', ''file_processing'',
     ''ai_enhancement'', ''specialized_capabilities'', ''autonomous_completion'',
     ''business_strategy'', ''communication'',
     ''quality'', ''formatting'', ''documentation'', ''validation_enhancement'', ''_validation'',
     ''workflow'', ''monitoring'', ''execution'', ''system_configurations'',
     ''infrastructure_preservation'',
     ''self_optimization'', ''cross_reference_integrity_system'', ''change_management'',
     ''framework_self_optimization'', ''eof_metadata'']"
  by (simp add: schema_keys_def schema_members_def schema_groups_def)

lemma schema_keys_distinct: "distinct schema_keys"
  unfolding schema_keys_eval by simp

lemma group_member_keys_list:
  "group_member_keys v
     = set (case v of JObj grp \<Rightarrow> filter (\<lambda>k. k \<notin> set descriptive_fields) (dict_keys grp)
            | _ \<Rightarrow> [])"
  by (cases v) (auto simp: group_member_keys_def)

lemma recovered_list_Cons:
  "recovered_list ((g, v) # r)
     = (if g = ''meta'' then []
        else (case v of JObj grp \<Rightarrow> filter (\<lambda>k. k \<notin> set descriptive_fields) (dict_keys grp)
              | _ \<Rightarrow> [])) @ recovered_list r"
  by (simp add: recovered_list_def)

lemma reorganized_sections_list: "reorganized_sections r = set (recovered_list r)"
proof -
  have "set (recovered_list r)
          = (\<Union>(g, v) \<in> set r. if g = ''meta'' then {} else group_member_keys v)"
  proof (induction r)
    case Nil
    show ?case by (simp add: recovered_list_def)
  next
    case (Cons item r)
    obtain g v where item: "item = (g, v)" by (cases item)
    show ?case
      unfolding item recovered_list_Cons set_append Cons.IH
      by (simp add: group_member_keys_list)
  qed
  then show ?thesis by (simp only: reorganized_sections_eq)
qed

lemma recovered_list_reorganize: "recovered_list (reorganize_framework original) = schema_keys"
  unfolding schema_keys_eval
  by (simp add: recovered_list_def reorganize_framework_def dict_keys_def descriptive_fields_def)

lemma reorganized_sections_reorganize:
  "reorganized_sections (reorganize_framework original) = set schema_keys"
  by (simp only: reorganized_sections_list recovered_list_reorganize)

lemma schema_defaults:
  "list_all (\<lambda>(k, g, dflt). dflt = JObj [] \<or> dflt = JArr []) schema_members"
  by (simp add: schema_members_def schema_groups_def)

lemma meta_not_member: "''meta'' \<notin> set schema_keys"
  unfolding schema_keys_eval by simp

lemma dict_get_absent: "key \<notin> set (dict_keys d) \<Longrightarrow> dict_get d key dflt = dflt"
  by (simp add: dict_get_def dict_keys_def map_of_eq_None_iff [THEN iffD2])

lemma dict_get_present: "map_of d key = Some v \<Longrightarrow> dict_get d key dflt = v"
  by (simp add: dict_get_def)

section \<open>The reorganizer followed by the checker\<close>

lemma group_member_reorganize:
  "list_all (\<lambda>(k, g, dflt). group_member (reorganize_framework original) g k
                               = Some (dict_get original k dflt)) schema_members"
  unfolding schema_members_def schema_groups_def group_member_def reorganize_framework_def
  by code_simp

lemma group_member_reorganizeD:
  assumes "(k, g, dflt) \<in> set schema_members"
  shows "group_member (reorganize_framework original) g k = Some (dict_get original k dflt)"
  using assms group_member_reorganize [of original]
  by (auto simp: list_all_iff)

lemma schema_defaultsD:
  "(k, g, dflt) \<in> set schema_members \<Longrightarrow> dflt = JObj [] \<or> dflt = JArr []"
  using schema_defaults by (auto simp: list_all_iff)

lemma schema_member_key: "(k, g, dflt) \<in> set schema_members \<Longrightarrow> k \<in> set schema_keys"
  by (force simp: schema_keys_def)

lemma missing_reorganize:
  "missing_sections original (reorganize_framework original)
     = original_sections original - set schema_keys"
  by (simp add: missing_sections_def reorganized_sections_reorganize)

lemma extra_reorganize:
  "extra_sections original (reorganize_framework original)
     = set schema_keys - set (dict_keys original)"
  using meta_not_member
  by (auto simp: extra_sections_def reorganized_sections_reorganize original_sections_def)

lemma count_list_distinct:
  "distinct xs \<Longrightarrow> count_list xs k = (if k \<in> set xs then 1 else 0)"
  by (induction xs) auto

lemma count_recovered:
  "count_list (recovered_list (reorganize_framework original)) k
     = (if k \<in> set schema_keys then 1 else 0)"
  unfolding recovered_list_reorganize
  by (rule count_list_distinct [OF schema_keys_distinct])

text \<open>
  C6. For every pair of a source and a target document the checker takes as original keys
  the top-level keys of the source without \<^verbatim>\<open>"meta"\<close>, as recovered keys the union,
  over the groups of the target other than \<^verbatim>\<open>"meta"\<close>, of the keys of the group
  without \<^verbatim>\<open>"description"\<close>, \<^verbatim>\<open>"reveal_on"\<close> and \<^verbatim>\<open>"complexity"\<close> (a top-level
  value that is no mapping has no keys), as missing and extra sets the two differences,
  and it returns success exactly when both are empty.
\<close>

theorem completeness_checker_contract:
  "original_sections source = set (dict_keys source) - {''meta''}
   \<and> reorganized_sections target
       = (\<Union>(group_name, group_data) \<in> set target.
            if group_name = ''meta'' then {}
            else (case group_data of
                    JObj g \<Rightarrow> set (dict_keys g) - {''description'', ''reveal_on'', ''complexity''}
                  | _ \<Rightarrow> {}))
   \<and> missing_sections source target = original_sections source - reorganized_sections target
   \<and> extra_sections source target = reorganized_sections target - original_sections source
   \<and> validate_reorganization source target
       = (missing_sections source target = {} \<and> extra_sections source target = {})"
proof -
  have "reorganized_sections target
       = (\<Union>(group_name, group_data) \<in> set target.
            if group_name = ''meta'' then {}
            else (case group_data of
                    JObj g \<Rightarrow> set (dict_keys g) - {''description'', ''reveal_on'', ''complexity''}
                  | _ \<Rightarrow> {}))"
  proof -
    have fields: "set descriptive_fields = {''description'', ''reveal_on'', ''complexity''}"
      by (simp add: descriptive_fields_def)
    show ?thesis
      unfolding reorganized_sections_eq group_member_keys_def fields ..
  qed
  then show ?thesis
    by (simp add: original_sections_def missing_sections_def extra_sections_def
          validate_reorganization_def)
qed

theorem completeness_checker_contract_witness:
  "reorganized_sections
     [(''meta'', JObj [(''version'', JInt 1)]),
      (''g1'', JObj [(''description'', JStr ''d''), (''a'', JNull), (''c'', JNull)]),
      (''g2'', JArr [JStr ''x''])] = {''a'', ''c''}
   \<and> missing_sections [(''meta'', JNull), (''a'', JInt 1), (''b'', JInt 2)]
     [(''meta'', JObj [(''version'', JInt 1)]),
      (''g1'', JObj [(''description'', JStr ''d''), (''a'', JNull), (''c'', JNull)]),
      (''g2'', JArr [JStr ''x''])] = {''b''}
   \<and> extra_sections [(''meta'', JNull), (''a'', JInt 1), (''b'', JInt 2)]
     [(''meta'', JObj [(''version'', JInt 1)]),
      (''g1'', JObj [(''description'', JStr ''d''), (''a'', JNull), (''c'', JNull)]),
      (''g2'', JArr [JStr ''x''])] = {''c''}
   \<and> validate_reorganization [(''meta'', JNull), (''a'', JInt 1), (''b'', JInt 2)]
     [(''meta'', JObj [(''version'', JInt 1)]),
      (''g1'', JObj [(''description'', JStr ''d''), (''a'', JNull), (''c'', JNull)]),
      (''g2'', JArr [JStr ''x''])] = False"
  using completeness_checker_contract
    [of "[(''meta'', JNull), (''a'', JInt 1), (''b'', JInt 2)]"
        "[(''meta'', JObj [(''version'', JInt 1)]),
          (''g1'', JObj [(''description'', JStr ''d''), (''a'', JNull), (''c'', JNull)]),
          (''g2'', JArr [JStr ''x''])]"]
  by (auto simp: dict_keys_def)

text \<open>
  C7. The value stored under \<^verbatim>\<open>"meta"\<close> in a source document is the value stored under
  \<^verbatim>\<open>"meta"\<close> in the output of the reorganizer, unchanged.
\<close>

theorem meta_passthrough:
  "map_of original ''meta'' = Some v
   \<Longrightarrow> map_of (reorganize_framework original) ''meta'' = Some v"
  by (simp add: reorganize_framework_def dict_get_def)

theorem meta_passthrough_witness:
  "map_of [(''core'', JInt 3), (''meta'', JObj [(''version'', JStr ''35.2.0'')])] ''meta''
     = Some (JObj [(''version'', JStr ''35.2.0'')])
   \<and> map_of (reorganize_framework
               [(''core'', JInt 3), (''meta'', JObj [(''version'', JStr ''35.2.0'')])]) ''meta''
     = Some (JObj [(''version'', JStr ''35.2.0'')])"
  using meta_passthrough
    [of "[(''core'', JInt 3), (''meta'', JObj [(''version'', JStr ''35.2.0'')])]"
        "JObj [(''version'', JStr ''35.2.0'')]"]
  by simp

lemma dict_keys_full_document: "dict_keys full_document = ''meta'' # schema_keys"
  by (simp add: full_document_def dict_keys_def schema_keys_def split_def)

lemma original_sections_full_document: "original_sections full_document = set schema_keys"
  using meta_not_member
  by (simp add: original_sections_def dict_keys_full_document)

text \<open>
  C1, as stated, fails: a source document with a top-level key outside the grouping table
  loses that key, and the checker reports it missing.
\<close>

theorem roundtrip_counterexample:
  "missing_sections [(''custom_section'', JInt 1)]
     (reorganize_framework [(''custom_section'', JInt 1)]) = {''custom_section''}
   \<and> validate_reorganization [(''custom_section'', JInt 1)]
     (reorganize_framework [(''custom_section'', JInt 1)]) = False"
proof -
  have "''custom_section'' \<notin> set schema_keys"
    unfolding schema_keys_eval by simp
  then have "missing_sections [(''custom_section'', JInt 1)]
     (reorganize_framework [(''custom_section'', JInt 1)]) = {''custom_section''}"
    by (auto simp: missing_reorganize original_sections_def dict_keys_def)
  then show ?thesis
    by (simp add: validate_reorganization_def)
qed

text \<open>
  C1, amended. The reorganizer places the member keys of its fixed grouping table and no
  other key: after it the checker's missing set is the top-level keys of the source (other
  than \<^verbatim>\<open>"meta"\<close>) outside the table, and its extra set is the table's keys absent from
  the source. For every source document whose top-level keys other than \<^verbatim>\<open>"meta"\<close> are
  exactly the keys of the table, both sets are empty, the checker succeeds, every such key
  is a member of exactly one group of the output, and no member key occurs that was not in
  the source.
\<close>

theorem reorganize_roundtrip:
  "missing_sections D (reorganize_framework D) = original_sections D - set schema_keys
   \<and> extra_sections D (reorganize_framework D) = set schema_keys - original_sections D
   \<and> (original_sections D = set schema_keys \<longrightarrow>
        missing_sections D (reorganize_framework D) = {}
        \<and> extra_sections D (reorganize_framework D) = {}
        \<and> validate_reorganization D (reorganize_framework D) = True
        \<and> (\<forall>k \<in> original_sections D.
              count_list (recovered_list (reorganize_framework D)) k = 1)
        \<and> set (recovered_list (reorganize_framework D)) \<subseteq> set (dict_keys D))"
proof -
  have m: "missing_sections D (reorganize_framework D) = original_sections D - set schema_keys"
    by (rule missing_reorganize)
  have e: "extra_sections D (reorganize_framework D) = set schema_keys - original_sections D"
    by (simp add: extra_sections_def reorganized_sections_reorganize)
  have sub: "original_sections D \<subseteq> set (dict_keys D)"
    by (auto simp: original_sections_def)
  have full: "missing_sections D (reorganize_framework D) = {}
        \<and> extra_sections D (reorganize_framework D) = {}
        \<and> validate_reorganization D (reorganize_framework D) = True
        \<and> (\<forall>k \<in> original_sections D.
              count_list (recovered_list (reorganize_framework D)) k = 1)
        \<and> set (recovered_list (reorganize_framework D)) \<subseteq> set (dict_keys D)"
    if eq: "original_sections D = set schema_keys"
  proof -
    have "set (recovered_list (reorganize_framework D)) \<subseteq> set (dict_keys D)"
      using sub by (simp add: recovered_list_reorganize eq)
    then show ?thesis
      by (simp add: m e eq validate_reorganization_def count_recovered)
  qed
  from m e full show ?thesis by blast
qed

theorem reorganize_roundtrip_witness:
  "original_sections full_document = set schema_keys
   \<and> missing_sections full_document (reorganize_framework full_document) = {}
   \<and> extra_sections full_document (reorganize_framework full_document) = {}
   \<and> validate_reorganization full_document (reorganize_framework full_document) = True
   \<and> count_list (recovered_list (reorganize_framework full_document)) ''principles'' = 1"
proof -
  have k: "''principles'' \<in> set schema_keys"
    unfolding schema_keys_eval by simp
  show ?thesis
    using reorganize_roundtrip [of full_document] original_sections_full_document k
    by simp
qed

text \<open>
  C4, as stated, fails in its last part: the placeholder of an absent member is a key of
  the output that the source does not have, so the checker puts it in its extra set.
\<close>

theorem placeholder_counterexample:
  "''core'' \<notin> set (dict_keys [])
   \<and> group_member (reorganize_framework []) ''core_framework'' ''core'' = Some (JObj [])
   \<and> ''core'' \<in> extra_sections [] (reorganize_framework [])
   \<and> missing_sections [] (reorganize_framework []) = {}
   \<and> validate_reorganization [] (reorganize_framework []) = False"
proof -
  have k: "''core'' \<in> set schema_keys"
    unfolding schema_keys_eval by simp
  have g: "group_member (reorganize_framework []) ''core_framework'' ''core'' = Some (JObj [])"
    by (simp add: group_member_def reorganize_framework_def dict_get_def)
  have e: "''core'' \<in> extra_sections [] (reorganize_framework [])"
    using k by (simp add: extra_reorganize dict_keys_def)
  have m: "missing_sections [] (reorganize_framework []) = {}"
    by (simp add: missing_reorganize original_sections_def dict_keys_def)
  from e have "extra_sections [] (reorganize_framework []) \<noteq> {}" by blast
  with g e m show ?thesis
    by (simp add: validate_reorganization_def dict_keys_def)
qed

text \<open>
  C4, amended. For every source document from which a member key of the grouping table is
  absent, the reorganizer (a total function of the document) stores under that key, in
  the member's group, the empty container that is the member's default (\<^verbatim>\<open>{}\<close>, and
  \<^verbatim>\<open>[]\<close> for \<^verbatim>\<open>"principles"\<close>); the checker that runs next has that key in its extra
  set and returns failure.
\<close>

theorem absent_member_placeholder:
  assumes "(k, g, dflt) \<in> set schema_members" and "k \<notin> set (dict_keys D)"
  shows "group_member (reorganize_framework D) g k = Some dflt
         \<and> (dflt = JObj [] \<or> dflt = JArr [])
         \<and> k \<in> extra_sections D (reorganize_framework D)
         \<and> validate_reorganization D (reorganize_framework D) = False"
proof -
  have v: "group_member (reorganize_framework D) g k = Some dflt"
    using group_member_reorganizeD [OF assms(1)] dict_get_absent [OF assms(2)] by simp
  have e: "k \<in> extra_sections D (reorganize_framework D)"
    using schema_member_key [OF assms(1)] assms(2) by (simp add: extra_reorganize)
  then have "extra_sections D (reorganize_framework D) \<noteq> {}" by blast
  then have "validate_reorganization D (reorganize_framework D) = False"
    by (simp add: validate_reorganization_def)
  with v e schema_defaultsD [OF assms(1)] show ?thesis by simp
qed

theorem absent_member_placeholder_witness:
  "(''principles'', ''core_framework'', JArr []) \<in> set schema_members
   \<and> ''principles'' \<notin> set (dict_keys [(''meta'', JObj [])])
   \<and> group_member (reorganize_framework [(''meta'', JObj [])]) ''core_framework'' ''principles''
       = Some (JArr [])
   \<and> ''principles'' \<in> extra_sections [(''meta'', JObj [])]
                          (reorganize_framework [(''meta'', JObj [])])
   \<and> validate_reorganization [(''meta'', JObj [])]
        (reorganize_framework [(''meta'', JObj [])]) = False"
proof -
  have h1: "(''principles'', ''core_framework'', JArr []) \<in> set schema_members"
    by (simp add: schema_members_def schema_groups_def)
  have h2: "''principles'' \<notin> set (dict_keys [(''meta'', JObj [])])"
    by (simp add: dict_keys_def)
  show ?thesis
    using absent_member_placeholder [OF h1 h2] h1 h2 by simp
qed

section \<open>Splitting a mapping along an allow-list\<close>

lemma pick_Nil [simp]: "pick M [] = []"
  by (simp add: pick_def map_filter_simps)

lemma pick_Cons:
  "pick M (k # keys) = (case map_of M k of None \<Rightarrow> pick M keys | Some v \<Rightarrow> (k, v) # pick M keys)"
  by (simp add: pick_def map_filter_simps split: option.splits)

lemma in_keys_iff: "k \<in> set (dict_keys M) \<longleftrightarrow> map_of M k \<noteq> None"
  by (simp add: dict_keys_def map_of_eq_None_iff)

lemma pick_keys_JObj: "pick_keys (JObj M) keys = Inr (pick M keys)"
proof (induction keys)
  case Nil
  show ?case by simp
next
  case (Cons k keys)
  show ?case
  proof (cases "map_of M k")
    case None
    then show ?thesis
      by (simp add: Cons.IH pick_Cons in_keys_iff)
  next
    case (Some v)
    then show ?thesis
      by (simp add: Cons.IH pick_Cons in_keys_iff dict_getitem_def)
  qed
qed

lemma drop_keys_JObj:
  "drop_keys (JObj M) S = Inr (filter (\<lambda>(key, value). key \<notin> S) M)"
  by (simp add: drop_keys_def)

lemma map_of_pick: "map_of (pick M keys) = map_of M |` set keys"
proof (induction keys)
  case Nil
  show ?case by simp
next
  case (Cons k keys)
  show ?case
    by (rule ext) (auto simp: pick_Cons Cons.IH restrict_map_def split: option.splits)
qed

lemma map_of_filter_keys:
  "map_of (filter (\<lambda>(key, value). key \<notin> S) M) = map_of M |` (- S)"
  by (induction M) (auto simp: restrict_map_def fun_eq_iff)

lemma keys_pick: "set (dict_keys (pick M keys)) = set keys \<inter> set (dict_keys M)"
proof -
  have "set (dict_keys (pick M keys)) = dom (map_of (pick M keys))"
    by (simp add: dict_keys_def dom_map_of_conv_image_fst)
  also have "\<dots> = set keys \<inter> set (dict_keys M)"
    by (auto simp: map_of_pick dict_keys_def dom_map_of_conv_image_fst)
  finally show ?thesis .
qed

lemma keys_filter: "set (dict_keys (filter (\<lambda>(key, value). key \<notin> S) M)) = set (dict_keys M) - S"
  by (auto simp: dict_keys_def)

lemma set_pick: "set (pick M keys) = {(k, v). k \<in> set keys \<and> map_of M k = Some v}"
  by (induction keys) (auto simp: pick_Cons split: option.splits)

lemma distinct_pick: "distinct keys \<Longrightarrow> distinct (dict_keys (pick M keys))"
proof (induction keys)
  case Nil
  show ?case by (simp add: dict_keys_def)
next
  case (Cons k keys)
  have "k \<notin> set (dict_keys (pick M keys))"
    using Cons.prems by (simp add: keys_pick)
  then show ?case
    using Cons by (auto simp: pick_Cons dict_keys_def split: option.splits)
qed

lemma distinct_filter_keys:
  "distinct (dict_keys M) \<Longrightarrow> distinct (dict_keys (filter (\<lambda>(key, value). key \<notin> S) M))"
  by (simp add: dict_keys_def distinct_map_filter)

lemma split_partition_pick:
  assumes "distinct allow"
  shows "split_partition allow M (pick M allow) (filter (\<lambda>(key, value). key \<notin> set allow) M)"
proof -
  let ?E = "pick M allow" and ?A = "filter (\<lambda>(key, value). key \<notin> set allow) M"
  have join: "map_of ?E ++ map_of ?A = map_of M"
    by (rule ext) (auto simp: map_of_pick map_of_filter_keys map_add_def restrict_map_def
                        split: option.splits)
  have entries: "set ?E \<union> set ?A = set M" if d: "distinct (dict_keys M)"
  proof -
    have "map_of M k = Some v \<longleftrightarrow> (k, v) \<in> set M" for k v
      using d by (simp add: dict_keys_def)
    then show ?thesis
      by (auto simp: set_pick)
  qed
  show ?thesis
    unfolding split_partition_def
    using join entries assms
    by (simp add: map_of_pick map_of_filter_keys keys_pick keys_filter distinct_pick
          distinct_filter_keys Int_Diff_disjoint)
       blast
qed


lemma distinct_allow_lists:
  "distinct essential_rule_keys" "distinct essential_web_keys"
  "distinct core_design_keys" "distinct essential_execution_keys"
  by (simp_all add: essential_rule_keys_def essential_web_keys_def core_design_keys_def
        essential_execution_keys_def)

lemma allow_sets:
  "{''approval_required'', ''full_internalization'', ''never_truncate_policy'',
    ''surgical_precision''} = set essential_rule_keys"
  "{''responsive_design'', ''accessibility'', ''performance'', ''semantic_html'',
    ''css_architecture''} = set essential_web_keys"
  "{''typography'', ''color_system'', ''spacing'', ''component_library''} = set core_design_keys"
  "{''validation_gates'', ''error_handling'', ''rollback_mechanisms''}
     = set essential_execution_keys"
  by (simp_all add: essential_rule_keys_def essential_web_keys_def core_design_keys_def
        essential_execution_keys_def)

lemma pick_empty: "pick [] keys = []"
  by (induction keys) (simp_all add: pick_Cons)

lemma web_split:
  "extract_essential_web_patterns (JObj M) = Inr (JObj (pick M essential_web_keys))
   \<and> extract_advanced_web_features (JObj M)
       = Inr (JObj (filter (\<lambda>(key, value). key \<notin> set essential_web_keys) M))"
  by (cases M)
     (simp_all add: extract_essential_web_patterns_def extract_advanced_web_features_def
        pick_keys_JObj drop_keys_JObj allow_sets pick_empty)

lemma design_split:
  "extract_core_design_components (JObj M) = Inr (JObj (pick M core_design_keys))
   \<and> extract_advanced_design_components (JObj M)
       = Inr (JObj (filter (\<lambda>(key, value). key \<notin> set core_design_keys) M))"
  by (cases M)
     (simp_all add: extract_core_design_components_def extract_advanced_design_components_def
        pick_keys_JObj drop_keys_JObj allow_sets pick_empty)

lemma execution_split:
  "extract_essential_execution (JObj M) = Inr (JObj (pick M essential_execution_keys))
   \<and> extract_advanced_execution (JObj M)
       = Inr (JObj (filter (\<lambda>(key, value). key \<notin> set essential_execution_keys) M))"
  by (cases M)
     (simp_all add: extract_essential_execution_def extract_advanced_execution_def
        pick_keys_JObj drop_keys_JObj allow_sets pick_empty)

lemma no_core_rules_JObj:
  "no_core_rules (JObj br) = Inr (map_of br ''core_rules'' = None)"
  by (cases br) (auto simp: no_core_rules_def in_keys_iff)

lemma rules_split:
  assumes "map_of br ''core_rules'' = Some (JObj M)"
  shows "extract_essential_behavioral_rules (JObj br) = Inr (JObj (pick M essential_rule_keys))
   \<and> extract_advanced_behavioral_rules (JObj br)
       = Inr (JObj (filter (\<lambda>(key, value). key \<notin> set essential_rule_keys) M))"
  using assms
  by (simp add: extract_essential_behavioral_rules_def extract_advanced_behavioral_rules_def
        no_core_rules_JObj dict_getitem_def pick_keys_JObj drop_keys_JObj allow_sets)


text \<open>
  C2. For every split slot whose source value is a mapping \<open>M\<close> (the web development,
  design system and execution sections, and the \<^verbatim>\<open>core_rules\<close> of the behavioral rules)
  both extraction functions return a mapping; the essential part is \<open>M\<close> restricted to
  the keys of the static allow-list (those of them present in \<open>M\<close>), the advanced part is
  \<open>M\<close> restricted to the remaining keys, the two key sets are disjoint, and the entries
  of the two parts together are exactly the entries of \<open>M\<close>.
\<close>

theorem split_partition_law:
  "(\<exists>E A. extract_essential_web_patterns (JObj M) = Inr (JObj E)
          \<and> extract_advanced_web_features (JObj M) = Inr (JObj A)
          \<and> split_partition essential_web_keys M E A)
   \<and> (\<exists>E A. extract_core_design_components (JObj M) = Inr (JObj E)
          \<and> extract_advanced_design_components (JObj M) = Inr (JObj A)
          \<and> split_partition core_design_keys M E A)
   \<and> (\<exists>E A. extract_essential_execution (JObj M) = Inr (JObj E)
          \<and> extract_advanced_execution (JObj M) = Inr (JObj A)
          \<and> split_partition essential_execution_keys M E A)
   \<and> (map_of behavioral_rules ''core_rules'' = Some (JObj M) \<longrightarrow>
        (\<exists>E A. extract_essential_behavioral_rules (JObj behavioral_rules) = Inr (JObj E)
           \<and> extract_advanced_behavioral_rules (JObj behavioral_rules) = Inr (JObj A)
           \<and> split_partition essential_rule_keys M E A))"
  using web_split [of M] design_split [of M] execution_split [of M]
    rules_split [of behavioral_rules M]
    split_partition_pick [OF distinct_allow_lists(1), of M]
    split_partition_pick [OF distinct_allow_lists(2), of M]
    split_partition_pick [OF distinct_allow_lists(3), of M]
    split_partition_pick [OF distinct_allow_lists(4), of M]
  by blast

theorem split_partition_law_witness:
  "map_of [(''core_rules'', JObj [(''tone'', JInt 1), (''surgical_precision'', JInt 2),
                                  (''approval_required'', JInt 3)]),
           (''enforcement'', JStr ''strict'')] ''core_rules''
     = Some (JObj [(''tone'', JInt 1), (''surgical_precision'', JInt 2),
                   (''approval_required'', JInt 3)])
   \<and> distinct (dict_keys [(''tone'', JInt 1), (''surgical_precision'', JInt 2),
                           (''approval_required'', JInt 3)])
   \<and> extract_essential_behavioral_rules
        (JObj [(''core_rules'', JObj [(''tone'', JInt 1), (''surgical_precision'', JInt 2),
                                     (''approval_required'', JInt 3)]),
               (''enforcement'', JStr ''strict'')])
       = Inr (JObj [(''approval_required'', JInt 3), (''surgical_precision'', JInt 2)])
   \<and> extract_advanced_behavioral_rules
        (JObj [(''core_rules'', JObj [(''tone'', JInt 1), (''surgical_precision'', JInt 2),
                                     (''approval_required'', JInt 3)]),
               (''enforcement'', JStr ''strict'')])
       = Inr (JObj [(''tone'', JInt 1)])
   \<and> split_partition essential_rule_keys
        [(''tone'', JInt 1), (''surgical_precision'', JInt 2), (''approval_required'', JInt 3)]
        [(''approval_required'', JInt 3), (''surgical_precision'', JInt 2)]
        [(''tone'', JInt 1)]
   \<and> set [(''approval_required'', JInt 3), (''surgical_precision'', JInt 2)]
       \<union> set [(''tone'', JInt 1)]
       = set [(''tone'', JInt 1), (''surgical_precision'', JInt 2), (''approval_required'', JInt 3)]"
proof -
  let ?M = "[(''tone'', JInt 1), (''surgical_precision'', JInt 2), (''approval_required'', JInt 3)]"
  let ?br = "[(''core_rules'', JObj ?M), (''enforcement'', JStr ''strict'')]"
  have h: "map_of ?br ''core_rules'' = Some (JObj ?M)" by simp
  have d: "distinct (dict_keys ?M)" by (simp add: dict_keys_def)
  have e: "extract_essential_behavioral_rules (JObj ?br)
             = Inr (JObj [(''approval_required'', JInt 3), (''surgical_precision'', JInt 2)])"
    by (simp add: extract_essential_behavioral_rules_def no_core_rules_def dict_keys_def
          dict_getitem_def essential_rule_keys_def)
  have a: "extract_advanced_behavioral_rules (JObj ?br) = Inr (JObj [(''tone'', JInt 1)])"
    by (simp add: extract_advanced_behavioral_rules_def no_core_rules_def dict_keys_def
          dict_getitem_def drop_keys_def)
  from split_partition_law [of ?M ?br] h e a
  have p: "split_partition essential_rule_keys ?M
             [(''approval_required'', JInt 3), (''surgical_precision'', JInt 2)]
             [(''tone'', JInt 1)]"
    by simp
  from p d have "set [(''approval_required'', JInt 3), (''surgical_precision'', JInt 2)]
       \<union> set [(''tone'', JInt 1)] = set ?M"
    unfolding split_partition_def by blast
  with h d e a p show ?thesis by blast
qed

text \<open>
  C3. For every list \<open>P\<close> of length \<open>L\<close> the principles split returns as essential part
  the first \<open>min 7 L\<close> elements of \<open>P\<close> and as advanced part the remaining
  \<open>L - min 7 L\<close> elements, and the essential part followed by the advanced part is \<open>P\<close>.
\<close>

theorem list_split_law:
  "extract_essential_principles (JArr P) = Inr (JArr (take (min 7 (length P)) P))
   \<and> extract_advanced_principles (JArr P) = Inr (JArr (drop (min 7 (length P)) P))
   \<and> length (take (min 7 (length P)) P) = min 7 (length P)
   \<and> length (drop (min 7 (length P)) P) = length P - min 7 (length P)
   \<and> take (min 7 (length P)) P @ drop (min 7 (length P)) P = P"
proof -
  have e: "extract_essential_principles (JArr P) = Inr (JArr (take 7 P))"
    by (cases P) (simp_all add: extract_essential_principles_def)
  have a: "extract_advanced_principles (JArr P) = Inr (JArr (drop 7 P))"
    by (simp add: extract_advanced_principles_def)
  have t: "take (min 7 (length P)) P = take 7 P"
    by (simp add: min_def)
  have d: "drop (min 7 (length P)) P = drop 7 P"
    by (simp add: min_def)
  have l: "length (take 7 P) = min 7 (length P)"
          "length (drop 7 P) = length P - min 7 (length P)"
    by (simp_all add: min_def)
  show ?thesis
    unfolding t d using e a l by simp
qed

section \<open>What the restructuring keeps of the behavioral rules\<close>











section \<open>Missing keys in the restructuring transform\<close>

text \<open>
  C5 says that the restructuring transform raises no error on a source that is a JSON
  object, whichever top-level keys are missing, \<^verbatim>\<open>"meta"\<close> included. The transform reads
  every other section with \<^verbatim>\<open>original.get(key, default)\<close> but \<^verbatim>\<open>"meta"\<close> with the
  subscript \<^verbatim>\<open>original["meta"]\<close>: on the source \<^verbatim>\<open>{}\<close> it raises KeyError.
\<close>

theorem restructure_framework_missing_meta: "restructure_framework [] = Inl KeyError"
  by (simp add: restructure_framework_def meta_get_def dict_getitem_def)

section \<open>The structural convention checks\<close>

declare str_count.simps [simp del] show_nat.simps [simp del]

lemma check_subsection_Nil:
  "check_subsection (k, v) vs = [] \<longleftrightarrow>
     vs = [] \<and> \<not> (case v of JObj d \<Rightarrow> 9 < length (dict_keys d)
                     | JArr xs \<Rightarrow> 9 < length xs | _ \<Rightarrow> False)"
  by (cases v) (auto simp: check_subsection_def Let_def)

lemma fold_check_subsection_Nil:
  "fold check_subsection fd vs = [] \<longleftrightarrow>
     vs = [] \<and> \<not> (\<exists>(k, v) \<in> set fd. case v of JObj d \<Rightarrow> 9 < length (dict_keys d)
                                      | JArr xs \<Rightarrow> 9 < length xs | _ \<Rightarrow> False)"
proof (induction fd arbitrary: vs)
  case Nil
  show ?case by simp
next
  case (Cons item fd)
  obtain k v where item: "item = (k, v)" by (cases item)
  show ?case
    unfolding item fold_simps Cons.IH check_subsection_Nil
    by auto
qed

text \<open>
  C8. For every document the cognitive-load check reports a violation exactly when the
  root mapping has more than 9 keys, or some top-level value that is a mapping has more
  than 9 keys, or some top-level value that is a list has more than 9 elements; it is
  compliant exactly when there is no such violation.
\<close>

theorem cognitive_load_check:
  "(cl_compliant (validate_cognitive_load D) \<longleftrightarrow>
      \<not> (9 < length (dict_keys D)
         \<or> (\<exists>(k, v) \<in> set D. case v of JObj d \<Rightarrow> 9 < length (dict_keys d)
                                  | JArr xs \<Rightarrow> 9 < length xs | _ \<Rightarrow> False)))
   \<and> (cl_violations (validate_cognitive_load D) \<noteq> [] \<longleftrightarrow>
        9 < length (dict_keys D)
        \<or> (\<exists>(k, v) \<in> set D. case v of JObj d \<Rightarrow> 9 < length (dict_keys d)
                                 | JArr xs \<Rightarrow> 9 < length xs | _ \<Rightarrow> False))"
  by (simp add: validate_cognitive_load_def Let_def fold_check_subsection_Nil)

theorem cognitive_load_check_witness:
  "cl_compliant (validate_cognitive_load
      [(''meta'', JObj [(''version'', JInt 1)]),
       (''principles'', JArr [JInt 1, JInt 2, JInt 3, JInt 4, JInt 5, JInt 6, JInt 7, JInt 8,
                             JInt 9, JInt 10])]) = False
   \<and> cl_compliant (validate_cognitive_load
      [(''meta'', JObj [(''version'', JInt 1)]),
       (''principles'', JArr [JInt 1, JInt 2, JInt 3])]) = True"
  using cognitive_load_check
     [of "[(''meta'', JObj [(''version'', JInt 1)]),
           (''principles'', JArr [JInt 1, JInt 2, JInt 3, JInt 4, JInt 5, JInt 6, JInt 7,
                                 JInt 8, JInt 9, JInt 10])]"]
    cognitive_load_check
     [of "[(''meta'', JObj [(''version'', JInt 1)]),
           (''principles'', JArr [JInt 1, JInt 2, JInt 3])]"]
  by (simp add: dict_keys_def)

lemma str_contains_Nil [simp]: "str_contains s []"
  by (cases s) simp_all

lemma str_count_pos: "0 < str_count s sub \<longleftrightarrow> str_contains s sub"
proof (induction s sub rule: str_count.induct)
  case (1 s sub)
  show ?case
  proof (cases "sub = []")
    case True
    then show ?thesis by (subst str_count.simps) simp
  next
    case sub: False
    show ?thesis
    proof (cases s)
      case Nil
      with sub show ?thesis by (subst str_count.simps) simp
    next
      case (Cons c cs)
      show ?thesis
      proof (cases "prefix sub s")
        case True
        with sub Cons show ?thesis by (subst str_count.simps) simp
      next
        case False
        with sub Cons "1.IH"(2) show ?thesis
          by (subst str_count.simps) simp
      qed
    qed
  qed
qed

lemma str_contains_sublist: "str_contains s sub \<longleftrightarrow> sublist sub s"
  by (induction s) (auto simp: sublist_Cons_right)

lemma sum_bools_filter: "sum_bools bs = length (filter (\<lambda>b. b) bs)"
  by (induction bs) (simp_all add: sum_bools_def)

text \<open>
  C9, as stated, fails for the progressive disclosure check: on the document
  \<^verbatim>\<open>{"reveal_on": 1}\<close> it reports compliant although only one of its three scanned
  markers occurs in the serialized text.
\<close>

theorem disclosure_threshold_counterexample:
  \<open>pd_compliant (validate_progressive_disclosure [(''reveal_on'', JInt 1)])
   \<and> indicators_present (json_dumps (JObj [(''reveal_on'', JInt 1)]))
        [''"reveal_on"'', ''"essential_first"'', ''"complexity"''] = 1\<close>
  by code_simp

text \<open>
  C9, amended. For every document the self-enforcement check reports compliant exactly
  when at least 2 of its 4 scanned markers occur in the serialized text; the progressive
  disclosure check reports compliant exactly when at least 1 of the two markers
  \<^verbatim>\<open>"reveal_on"\<close> and \<^verbatim>\<open>"essential_first"\<close> occurs there (its third scanned marker,
  \<^verbatim>\<open>"complexity"\<close>, is counted for the report and does not enter the verdict).
\<close>

theorem heuristic_checks:
  \<open>(se_compliant (validate_self_enforcement D) \<longleftrightarrow>
      2 \<le> indicators_present (json_dumps (JObj D))
             [''"self_validated"'', ''health_check'', ''"validation_framework"'',
              ''"auto_applies"''])
   \<and> (pd_compliant (validate_progressive_disclosure D) \<longleftrightarrow>
        1 \<le> indicators_present (json_dumps (JObj D)) [''"reveal_on"'', ''"essential_first"''])\<close>
proof -
  have se: \<open>se_compliant (validate_self_enforcement D) \<longleftrightarrow>
      2 \<le> indicators_present (json_dumps (JObj D))
             [''"self_validated"'', ''health_check'', ''"validation_framework"'',
              ''"auto_applies"'']\<close>
    unfolding validate_self_enforcement_def Let_def indicators_present_def sum_bools_filter
    by simp
  have pd: \<open>pd_compliant (validate_progressive_disclosure D) \<longleftrightarrow>
        1 \<le> indicators_present (json_dumps (JObj D)) [''"reveal_on"'', ''"essential_first"'']\<close>
    unfolding validate_progressive_disclosure_def Let_def indicators_present_def
    by (simp add: str_count_pos)
  from se pd show ?thesis by blast
qed

theorem heuristic_checks_witness:
  \<open>se_compliant (validate_self_enforcement
      [(''self_validated'', JBool True), (''health_checks'', JObj [])]) = True
   \<and> se_compliant (validate_self_enforcement [(''self_validated'', JBool True)]) = False
   \<and> pd_compliant (validate_progressive_disclosure [(''essential_first'', JBool True)]) = True
   \<and> pd_compliant (validate_progressive_disclosure [(''complexity'', JStr ''low'')]) = False\<close>
proof -
  have 1: \<open>indicators_present
      (json_dumps (JObj [(''self_validated'', JBool True), (''health_checks'', JObj [])]))
      [''"self_validated"'', ''health_check'', ''"validation_framework"'', ''"auto_applies"'']
      = 2\<close>
    by code_simp
  have 2: \<open>indicators_present (json_dumps (JObj [(''self_validated'', JBool True)]))
      [''"self_validated"'', ''health_check'', ''"validation_framework"'', ''"auto_applies"'']
      = 1\<close>
    by code_simp
  have 3: \<open>indicators_present (json_dumps (JObj [(''essential_first'', JBool True)]))
      [''"reveal_on"'', ''"essential_first"''] = 1\<close>
    by code_simp
  have 4: \<open>indicators_present (json_dumps (JObj [(''complexity'', JStr ''low'')]))
      [''"reveal_on"'', ''"essential_first"''] = 0\<close>
    by code_simp
  show ?thesis
    using heuristic_checks [of \<open>[(''self_validated'', JBool True), (''health_checks'', JObj [])]\<close>]
      heuristic_checks [of \<open>[(''self_validated'', JBool True)]\<close>]
      heuristic_checks [of \<open>[(''essential_first'', JBool True)]\<close>]
      heuristic_checks [of \<open>[(''complexity'', JStr ''low'')]\<close>]
    unfolding 1 2 3 4 by simp
qed

end
